theory Spec2Isabelle
  imports Main "HOL-Library.Word"
begin

unbundle bit_operations_syntax

section \<open>Machine integers\<close>

text \<open>
  The C++ \<open>int\<close> is a 32-bit two's complement value: a \<open>32 word\<close> read with \<open>sint\<close>
  wherever the source compares or converts it as a signed number. \<open>uint16_t\<close>,
  \<open>uint32_t\<close> and \<open>uint64_t\<close> are words of that width, read with \<open>uint\<close>/\<open>unat\<close>.
\<close>

type_synonym c_int = "32 word"
type_synonym u16 = "16 word"
type_synonym u32 = "32 word"
type_synonym u64 = "64 word"

section \<open>curl.cpp: the rate-limited alarm channel\<close>













section \<open>stonehenge.cpp: data\<close>

text \<open>
  Modelled from the spec: the structs \<open>alltimes\<close>, \<open>hitinfo\<close>, \<open>counts\<close> and
  \<open>configuration\<close> are declared in headers (snbuf.h, config.h) that are not among the
  sources. The spec's data model gives \<open>time50\<close>, \<open>time10\<close>, \<open>longtime\<close> and \<open>exptime\<close>
  as tick counts (\<open>longtime\<close> "a 64-bit rollover-free monotonic tick count"), and
  \<open>ReadHits\<close> builds \<open>hit.time50\<close> and \<open>hit.time10\<close> from \<open>uint64_t\<close> expressions, so the four
  are \<open>uint64_t\<close>. \<open>epoch\<close>, \<open>walltime\<close> and \<open>oldwalltime\<close> are \<open>int\<close> (\<open>walltime\<close> is
  assigned \<open>(int) time(NULL)\<close>). The configuration's parameters are printed with \<open>%d\<close>
  and \<open>bitmask\<close> with \<open>%x\<close> by \<open>WriteConfig\<close>: \<open>int\<close> and \<open>uint32_t\<close>. The record counters
  are printed with \<open>%lu\<close>: \<open>uint64_t\<close>.
\<close>

record alltimes =
  time50 :: u64
  time10 :: u64
  longtime :: u64
  epoch :: c_int
  walltime :: c_int
  oldwalltime_at :: c_int
  exptime :: u64

record hitinfo =
  time50_hit :: u64
  time10_hit :: u64
  nhit :: u16
  triggertype :: u32
  reclen :: u32
  gtid :: u32
  run :: u32

record configuration =
  nhithi :: c_int
  nhitlo :: c_int
  lothresh :: c_int
  lowindow :: c_int
  retrigcut :: c_int
  retrigwindow :: c_int
  bitmask :: u32
  nhitbcut :: c_int
  burstwindow :: c_int
  burstsize :: c_int
  endrate :: c_int

text \<open>
  The file-scope and function-scope statics of stonehenge.cpp that the filter logic
  reads and writes: \<open>config\<close>, \<open>NHITCUT\<close>, and the \<open>standard\<close> and \<open>problem\<close> of
  \<open>compute_times\<close>.
\<close>

record globals =
  config :: configuration
  NHITCUT :: c_int
  standard :: alltimes
  problem :: bool

text \<open>\<open>maxtime = (1UL << 43)\<close>, \<open>maxjump = 10*50000000\<close>, \<open>maxdrift = 5000\<close>, \<open>MAX_NHIT\<close>,
  \<open>MAX_BUFFSIZE\<close>\<close>

definition maxtime :: u64 where "maxtime = push_bit 43 1"
definition maxjump :: u64 where "maxjump = 10 * 50000000"
definition maxdrift :: c_int where "maxdrift = 5000"
definition MAX_NHIT :: int where "MAX_NHIT = 10240"
definition MAX_BUFFSIZE :: nat where "MAX_BUFFSIZE = 0x400000"

section \<open>stonehenge.cpp: effects and the state of the record loop\<close>

text \<open>
  What the filter does besides computing: calls of \<open>alarm\<close> (level, message, third
  argument, as stonehenge.cpp calls it; the trailing newline of a message is left out), the formatted drift alarm
  with its \<open>dd\<close> (raised at level 30 and printed to \<open>stderr\<close> as well), lines printed
  to \<open>stderr\<close>, and calls of collaborators whose code is not among the sources, with
  the arguments that matter here (\<open>AddEvBuf\<close>: the record, the time and the length in
  bytes, \<open>reclen*sizeof(uint32_t)\<close>, a 64-bit product).
\<close>

datatype effect =
    Alarm int string int
  | Alarm_drift c_int
  | Stderr string
  | Checkbuffer u64
  | ClearBuffer u64
  | SetConfig_call u32
  | WriteConfig_call
  | Redis_write c_int
  | Flusherrors
  | UpdateBuf u64 c_int
  | AddEvBuf "u32 list" u64 u64
  | Burstfile_call
  | OutZdab u32 "u32 list"

text \<open>
  The state of the loop of \<open>main\<close>: the statics (\<open>globals\<close>), the locals \<open>count\<close>
  (\<open>eventn\<close>, \<open>recordn\<close>), \<open>passretrig\<close>, \<open>retrig\<close>, \<open>stats\<close>, \<open>alltime\<close>, \<open>hits\<close>,
  \<open>configknown\<close>, the fields of \<open>stat\<close> that the loop itself writes (\<open>orphan\<close>, \<open>l1\<close>,
  \<open>l2\<close>, \<open>burstbool\<close>; the struct \<open>l2stats\<close> is declared in redis.h, not among the
  sources, and its counters are taken to be \<open>int\<close>), and the effects so far.
\<close>

record state = globals +
  eventn :: u64
  recordn :: u64
  passretrig :: bool
  retrig :: bool
  orphan :: c_int
  l1 :: c_int
  l2 :: c_int
  burstbool :: bool
  stats :: "c_int list"
  alltime :: alltimes
  hits :: hitinfo
  configknown :: bool
  log :: "effect list"

section \<open>stonehenge.cpp: the clocks\<close>

text \<open>
  The second test of \<open>IsConsistent\<close>, "time has not jumped too far ahead":
  \<open>newat.time50 - standard.time50 > maxjump\<close>, an unsigned 64-bit subtraction.
\<close>

definition jump_check :: "alltimes \<Rightarrow> alltimes \<Rightarrow> effect list \<Rightarrow> bool \<times> alltimes \<times> effect list" where
  "jump_check newat std eff =
     (if time50 newat - time50 std > maxjump
      then (False, newat,
            eff @ [Alarm 30 ''Stonehenge: Large time gap between events!'' 0,
                   Stderr ''Stonehenge: Large time gap between events!''])
      else (True, newat, eff))"

text \<open>
  \<open>bool IsConsistent(alltimes & newat, alltimes standard, const int dd)\<close>: the result,
  \<open>newat\<close> as the call leaves it (it is passed by reference), and the effects. After
  the rollover branch has incremented \<open>newat.epoch\<close>, control falls through to the
  second test.
\<close>

definition IsConsistent :: "alltimes \<Rightarrow> alltimes \<Rightarrow> c_int \<Rightarrow> bool \<times> alltimes \<times> effect list" where
  "IsConsistent newat std dd =
     (if time50 newat < time50 std then
        (if time50 std + time50 newat < maxtime + maxjump \<and> sint dd < sint maxdrift
            \<and> time50 std > maxtime - maxjump
         then jump_check (newat\<lparr>epoch := epoch newat + 1\<rparr>) std
                [Stderr ''New Epoch'', Alarm 20 ''Stonehenge: new epoch.'' 0]
         else (False, newat,
               [Alarm 30 ''Stonehenge: Time running backward!'' 0,
                Stderr ''Stonehenge: Time running backward!'']))
      else jump_check newat std [])"

text \<open>
  The drift \<open>dd\<close> of \<open>compute_times\<close>: the absolute difference of two unsigned 64-bit
  differences, converted to \<open>int\<close> (the low 32 bits).
\<close>

definition drift :: "alltimes \<Rightarrow> alltimes \<Rightarrow> c_int" where
  "drift oldat newat =
     ucast (if (time10 oldat - time10 newat) * 5 > time50 oldat - time50 newat
            then (time10 oldat - time10 newat) * 5 - (time50 oldat - time50 newat)
            else (time50 oldat - time50 newat) - (time10 oldat - time10 newat) * 5)"

text \<open>
  \<open>static alltimes compute_times(hitinfo hits, alltimes oldat, counts & count,
  bool & passretrig, bool & retrig, l2stats & stat, PZdabWriter* & b)\<close>: the returned
  \<open>alltimes\<close> and the state with the references and statics updated. In
  \<open>... <= config.retrigwindow\<close> and \<open>maxtime*newat.epoch\<close> the \<open>int\<close> is converted to
  \<open>uint64_t\<close>.
\<close>

definition compute_times :: "hitinfo \<Rightarrow> alltimes \<Rightarrow> state \<Rightarrow> alltimes \<times> state" where
  "compute_times hit oldat st =
     (if eventn st = 1 then
        (let newat = oldat\<lparr>time50 := time50_hit hit, time10 := time10_hit hit\<rparr>;
             st1 = (if time50 newat = 0 then st\<lparr>orphan := orphan st + 1\<rparr> else st);
             newat = newat\<lparr>longtime := time50 newat\<rparr>
         in (newat, st1\<lparr>standard := newat, problem := False,
                         log := log st1 @ [Checkbuffer (time50 newat)]\<rparr>))
      else
        (let newat = oldat\<lparr>time50 := time50_hit hit, time10 := time10_hit hit\<rparr>;
             dd = drift oldat newat;
             st1 = (if sint dd > sint maxdrift
                    then st\<lparr>log := log st @ [Alarm_drift dd]\<rparr> else st);
             st2 = (if time50 newat - time50 oldat > 0
                       \<and> time50 newat - time50 oldat \<le> scast (retrigwindow (config st1))
                    then st1\<lparr>retrig := True\<rparr>
                    else st1\<lparr>retrig := False, passretrig := False\<rparr>)
         in if time50 newat = 0
            then (newat\<lparr>time50 := time50 oldat\<rparr>, st2\<lparr>orphan := orphan st2 + 1\<rparr>)
            else
              (case IsConsistent newat (standard st2) dd of (ok, newat, eff) \<Rightarrow>
                 (let st3 = st2\<lparr>log := log st2 @ eff\<rparr>
                  in if ok then
                       (let newat = newat\<lparr>longtime := time50 newat + maxtime * scast (epoch newat)\<rparr>
                        in (newat, st3\<lparr>standard := newat, problem := False\<rparr>))
                     else if problem st3 then
                       (let newat = newat\<lparr>epoch := 0, longtime := time50 newat, exptime := 0\<rparr>
                        in (newat,
                            st3\<lparr>NHITCUT := nhithi (config st3), standard := newat, problem := False,
                                log := log st3 @
                                  [Alarm 40 ''Stonehenge: Events out of order - Resetting buffers.'' 3,
                                   ClearBuffer (longtime (standard st3))]\<rparr>))
                     else (standard st3, st3\<lparr>problem := True\<rparr>)))))"

section \<open>stonehenge.cpp: the L2 cut and the threshold\<close>

text \<open>
  \<open>bool l2filter(nhit, word, passretrig, retrig, int stats[])\<close>: the decision and the
  histogram as the call leaves it. \<open>nhit\<close> is promoted to \<open>int\<close> in both comparisons.
  The loop over the eight buckets is the \<open>fold\<close>.
\<close>

definition l2filter ::
  "'a globals_scheme \<Rightarrow> u16 \<Rightarrow> u32 \<Rightarrow> bool \<Rightarrow> bool \<Rightarrow> c_int list \<Rightarrow> bool \<times> c_int list" where
  "l2filter g n word passretrig_in retrig_in stats_in =
     (let (pass, key) = (False, 0::nat);
          (pass, key) = (if uint n > sint (NHITCUT g) then (True, key + 1) else (pass, key));
          (pass, key) = (if word AND bitmask (config g) \<noteq> 0 then (True, key + 2)
                         else (pass, key));
          (pass, key) = (if passretrig_in \<and> retrig_in \<and> uint n > sint (retrigcut (config g))
                         then (True, key + 4) else (pass, key))
      in (pass, fold (\<lambda>i s. if key = i then s[i := s ! i + 1] else s) [0 ..< 8] stats_in))"

text \<open>
  \<open>static void setthreshold(uint16_t nhit, alltimes & alltime)\<close>. In
  \<open>alltime.longtime + config.lowindow\<close> the \<open>int\<close> is converted to \<open>uint64_t\<close> (sign
  extension, \<open>scast\<close>) and the sum wraps.
\<close>

definition setthreshold :: "u16 \<Rightarrow> alltimes \<Rightarrow> 'a globals_scheme \<Rightarrow> alltimes \<times> 'a globals_scheme" where
  "setthreshold n at g =
     (let (at1, g1) =
            (if uint n > sint (lothresh (config g))
             then (at\<lparr>exptime := longtime at + scast (lowindow (config g))\<rparr>,
                   g\<lparr>NHITCUT := nhitlo (config g)\<rparr>)
             else (at, g))
      in if longtime at1 > exptime at1
         then (at1, g1\<lparr>NHITCUT := nhithi (config g1)\<rparr>)
         else (at1, g1))"

section \<open>stonehenge.cpp: the record decoder\<close>

text \<open>
  \<open>ReadHits\<close> works on declarations of PZdabFile.h and its includes, which are not among
  the sources: the bank tag \<open>ZDAB_RECORD\<close>, the sub-record masks \<open>SUB_NOT_LAST\<close> and
  \<open>SUB_LENGTH_MASK\<close>, the macro \<open>SWAP_PMT_RECORD\<close>, and the layout of
  \<open>PmtEventRecord\<close> (where \<open>NPmtHit\<close>, \<open>RunNumber\<close>, \<open>CalPckType\<close> and the bit fields of
  \<open>TriggerCardData\<close> lie). They are parameters of the model, together with the
  collaborator \<open>SetConfig\<close> and the command-line flag \<open>yesredis\<close>. The field readers
  take the eleven words of the record header as they stand in memory; \<open>CalPckType\<close> and
  \<open>TriggerCardData\<close> are word offsets from \<open>pmtEventPtr\<close>.
\<close>

record externals =
  ZDAB_RECORD :: u32
  SUB_NOT_LAST :: u32
  SUB_LENGTH_MASK :: u32
  SWAP_PMT_RECORD :: "u32 list \<Rightarrow> u32 list"
  NPmtHit :: "u32 list \<Rightarrow> u16"
  RunNumber :: "u32 list \<Rightarrow> u32"
  BcGT :: "u32 list \<Rightarrow> u32"
  Bc50_1 :: "u32 list \<Rightarrow> u32"
  Bc50_2 :: "u32 list \<Rightarrow> u32"
  Bc10_1 :: "u32 list \<Rightarrow> u32"
  Bc10_2 :: "u32 list \<Rightarrow> u32"
  CalPckType :: nat
  TriggerCardData :: nat
  SetConfig :: "u32 \<Rightarrow> configuration"
  yesredis :: bool

text \<open>
  Modelled from the spec: the macro \<open>SWAP_INT32(a, n)\<close> is defined in PZdabFile.h, not
  among the sources; it is the byte-order flip of the spec, reversing the four bytes of
  each of the \<open>n\<close> 32-bit words from \<open>a\<close> on. The buffer is the list of words from
  \<open>pmtEventPtr\<close> on and \<open>a\<close> an index into it.
\<close>

definition swap_bytes :: "u32 \<Rightarrow> u32" where
  "swap_bytes w =
     push_bit 24 (w AND 0xff) OR push_bit 8 (w AND 0xff00)
       OR (drop_bit 8 w AND 0xff00) OR drop_bit 24 w"

definition SWAP_INT32 :: "u32 list \<Rightarrow> nat \<Rightarrow> nat \<Rightarrow> u32 list" where
  "SWAP_INT32 buf a n = take a buf @ map swap_bytes (take n (drop a buf)) @ drop (a + n) buf"

text \<open>\<open>SWAP_PMT_RECORD(pmtEventPtr)\<close>: the macro applied to the eleven words of the header
  ("11 words for PmtEventRecord").\<close>

definition swap_header :: "externals \<Rightarrow> u32 list \<Rightarrow> u32 list" where
  "swap_header ext buf = SWAP_PMT_RECORD ext (take 11 buf) @ drop 11 buf"

text \<open>A record as \<open>NextRecord\<close> hands it over: the bank name of the \<open>nZDAB\<close> header and
  the words that follow the header (\<open>zrec + 1\<close>).\<close>

record nZDAB =
  bank_name :: u32
  pmt :: "u32 list"

text \<open>A read or write outside the record buffer is undefined behaviour in the source; the
  model stops with a fault.\<close>

datatype fault = Out_of_bounds

datatype walk_end = Jump_too_far "u32 list" | Chain_end "u32 list" u32

text \<open>
  The loop \<open>while( *sub_header & SUB_NOT_LAST )\<close> of \<open>ReadHits\<close>, on the buffer, the
  index of \<open>sub_header\<close> and \<open>event_size\<close>. It need not terminate (a header with the
  flag set and length 0 is read again and again): \<open>None\<close> is the run that never
  returns.
\<close>

partial_function (option) walk ::
  "externals \<Rightarrow> u32 list \<Rightarrow> nat \<Rightarrow> u32 \<Rightarrow> (fault + walk_end) option" where
  "walk ext buf sub event_size =
     (if sub \<ge> length buf then Some (Inl Out_of_bounds)
      else if buf ! sub AND SUB_NOT_LAST ext = 0 then Some (Inr (Chain_end buf event_size))
      else
        (let jump = unat (buf ! sub AND SUB_LENGTH_MASK ext) in
         if jump > MAX_BUFFSIZE div 4 then Some (Inr (Jump_too_far buf))
         else if sub + jump \<ge> length buf then Some (Inl Out_of_bounds)
         else
           (let buf1 = SWAP_INT32 buf sub 1;
                sub1 = sub + jump;
                buf2 = SWAP_INT32 buf1 sub1 1;
                datawords = buf2 ! sub1 AND SUB_LENGTH_MASK ext
            in if sub1 + unat datawords > length buf then Some (Inl Out_of_bounds)
               else walk ext (SWAP_INT32 buf2 sub1 (unat datawords)) sub1
                      (event_size + datawords))))"

declare walk.simps [code]

text \<open>
  The fields \<open>ReadHits\<close> reads from the header once it is in host order: \<open>nhit\<close> first,
  then \<open>gtid\<close>, \<open>run\<close>, the two clocks and the trigger word (\<open>mtcwords\<close> are the six words
  of \<open>TriggerCardData\<close>).
\<close>

definition read_fields :: "externals \<Rightarrow> u32 list \<Rightarrow> hitinfo \<Rightarrow> hitinfo" where
  "read_fields ext buf hit =
     (let hdr = take 11 buf;
          mtcwords = take 6 (drop (TriggerCardData ext) buf)
      in hit\<lparr>gtid := BcGT ext hdr,
              run := RunNumber ext hdr,
              time50_hit := push_bit 11 (ucast (Bc50_2 ext hdr)) + ucast (Bc50_1 ext hdr),
              time10_hit := push_bit 32 (ucast (Bc10_2 ext hdr)) + ucast (Bc10_1 ext hdr),
              triggertype := drop_bit 24 (mtcwords ! 3 AND 0xff000000)
                               OR push_bit 8 (mtcwords ! 4 AND 0x3ffff)\<rparr>)"

text \<open>
  \<open>static int ReadHits(nZDAB* zrec, hitinfo& hit)\<close>: the return value, the record with its
  buffer as the call leaves it, \<open>hit\<close> as the call leaves it, and the effects.
\<close>

definition ReadHits ::
  "externals \<Rightarrow> nZDAB \<Rightarrow> hitinfo \<Rightarrow> (fault + int \<times> nZDAB \<times> hitinfo \<times> effect list) option" where
  "ReadHits ext zr hit =
     (if bank_name zr \<noteq> ZDAB_RECORD ext then Some (Inr (1, zr, hit, []))
      else if length (pmt zr) < 11 then Some (Inl Out_of_bounds)
      else
        (let buf = swap_header ext (pmt zr);
             hit1 = hit\<lparr>nhit := NPmtHit ext (take 11 buf)\<rparr>
         in if uint (nhit hit1) > MAX_NHIT
            then Some (Inr (1, zr\<lparr>pmt := buf\<rparr>, hit1,
                            [Stderr ''Read error: Bad ZDAB'', Alarm 30 ''Too many hits found!'' 0]))
            else
              (let hit2 = read_fields ext buf hit1;
                   event_size = 20 + 3 * ucast (nhit hit2)
               in case walk ext buf (CalPckType ext) event_size of
                    None \<Rightarrow> None
                  | Some (Inl f) \<Rightarrow> Some (Inl f)
                  | Some (Inr (Jump_too_far buf1)) \<Rightarrow>
                      Some (Inr (0, zr\<lparr>pmt := buf1\<rparr>, hit2,
                                 [Stderr ''Error: wanted to jump past the end of the buffer'']))
                  | Some (Inr (Chain_end buf1 event_size1)) \<Rightarrow>
                      (let hit3 = hit2\<lparr>reclen := event_size1\<rparr>;
                           buf2 = swap_header ext buf1
                       in if 11 + 3 * unat (nhit hit3) > length buf2 then Some (Inl Out_of_bounds)
                          else Some (Inr (0, zr\<lparr>pmt := SWAP_INT32 buf2 11 (3 * unat (nhit hit3))\<rparr>,
                                          hit3, []))))))"

section \<open>stonehenge.cpp: the record loop of main\<close>

text \<open>
  What one iteration of the loop takes from outside: the record, the value of
  \<open>FillHeaderBuffer(zrec)\<close>, the value of \<open>time(NULL)\<close> in \<open>updatetime\<close>, and the value
  of \<open>Burstfile(...)\<close>.
\<close>

record input =
  zrec :: nZDAB
  runtype :: u32
  now :: c_int
  burst :: bool

text \<open>\<open>static void updatetime(alltimes & alltime)\<close>\<close>

definition updatetime :: "c_int \<Rightarrow> alltimes \<Rightarrow> alltimes" where
  "updatetime t at =
     (let at1 = (if walltime at \<noteq> 0 then at\<lparr>oldwalltime_at := walltime at\<rparr> else at)
      in at1\<lparr>walltime := t\<rparr>)"

text \<open>The head of the loop body: the two tests on \<open>runtype\<close>, in their order.\<close>

definition header_phase :: "externals \<Rightarrow> u32 \<Rightarrow> state \<Rightarrow> state" where
  "header_phase ext rt st =
     (let st1 = (if rt \<noteq> 0 \<and> \<not> configknown st
                 then st\<lparr>config := SetConfig ext rt,
                         log := log st @ [SetConfig_call rt, WriteConfig_call],
                         configknown := True\<rparr>
                 else st)
      in if rt \<noteq> 0 \<and> configknown st1
         then st1\<lparr>log := log st1 @ [Alarm 30 ''Stonehenge: RHDR Record in the middle of a run!'' 0]\<rparr>
         else st1)"

text \<open>The branch of the loop body for \<open>ReadHits\<close> returning 0; \<open>hits\<close> and the record are
  those \<open>ReadHits\<close> left.\<close>

definition event_phase :: "externals \<Rightarrow> input \<Rightarrow> nZDAB \<Rightarrow> state \<Rightarrow> state" where
  "event_phase ext inp zr st =
     (let st1 = st\<lparr>eventn := eventn st + 1\<rparr>;
          (at2, st2) = compute_times (hits st1) (alltime st1) st1;
          st3 = st2\<lparr>alltime := updatetime (now inp) at2\<rparr>;
          st4 = (if walltime (alltime st3) \<noteq> oldwalltime_at (alltime st3)
                 then st3\<lparr>log := log st3
                            @ (if yesredis ext then [Redis_write (oldwalltime_at (alltime st3))] else [])
                            @ [Flusherrors]\<rparr>
                 else st3);
          st5 = (if \<not> configknown st4
                 then st4\<lparr>config := SetConfig ext 0,
                          log := log st4 @ [SetConfig_call 0, WriteConfig_call,
                            Alarm 30 ''Stonehenge: No RHDR Record found!  Using default cuts!'' 0],
                          configknown := True\<rparr>
                 else st4);
          (at6, st6) = setthreshold (nhit (hits st5)) (alltime st5) st5;
          st7 = st6\<lparr>alltime := at6\<rparr>;
          word = triggertype (hits st7);
          st8 = (if uint (nhit (hits st7)) > sint (nhitbcut (config st7))
                    \<and> word AND bitmask (config st7) = 0
                 then st7\<lparr>log := log st7
                            @ [UpdateBuf (longtime (alltime st7)) (burstwindow (config st7)),
                               AddEvBuf (pmt zr) (longtime (alltime st7)) (ucast (reclen (hits st7)) * 4),
                               Burstfile_call],
                          burstbool := (burstbool st7 \<or> burst inp)\<rparr>
                 else st7);
          (pass, stats1) = l2filter st8 (nhit (hits st8)) word (passretrig st8) (retrig st8) (stats st8);
          st9 = st8\<lparr>stats := stats1\<rparr>
      in if pass
         then st9\<lparr>log := log st9 @ [OutZdab (bank_name zr) (pmt zr)], passretrig := True,
                  l2 := l2 st9 + 1\<rparr>
         else st9)"

text \<open>One iteration of \<open>while(nZDAB * const zrec = zfile->NextRecord())\<close>.\<close>

definition main_step :: "externals \<Rightarrow> input \<Rightarrow> state \<Rightarrow> (fault + state) option" where
  "main_step ext inp st =
     (let st1 = header_phase ext (runtype inp) st
      in case ReadHits ext (zrec inp) (hits st1) of
           None \<Rightarrow> None
         | Some (Inl f) \<Rightarrow> Some (Inl f)
         | Some (Inr (ret, zr, hit, eff)) \<Rightarrow>
             (let st2 = st1\<lparr>hits := hit, log := log st1 @ eff\<rparr>;
                  st3 = (if ret = 0 then event_phase ext inp zr st2
                         else st2\<lparr>log := log st2 @ [OutZdab (bank_name zr) (pmt zr)],
                                  l2 := l2 st2 + 1\<rparr>)
              in Some (Inr (st3\<lparr>recordn := recordn st3 + 1, l1 := l1 st3 + 1\<rparr>))))"

section \<open>Notions used in the statements\<close>

text \<open>The reading \<open>compute_times\<close> forms from a hit before it tests it: \<open>newat\<close> after the
  two assignments from \<open>hits\<close>.\<close>

definition new_reading :: "hitinfo \<Rightarrow> alltimes \<Rightarrow> alltimes" where
  "new_reading hit oldat = oldat\<lparr>time50 := time50_hit hit, time10 := time10_hit hit\<rparr>"



text \<open>The effects a step appended to the log.\<close>

definition new_effects :: "state \<Rightarrow> state \<Rightarrow> effect list" where
  "new_effects st st' = drop (length (log st)) (log st')"

text \<open>
  The bucket the claim names: the 3-bit combination of the three conditions, bit 0 for
  "nhit exceeds the active cut", bit 1 for "the trigger word intersects the mask", bit 2
  for the retrigger condition. Written from the claim, to be compared with the \<open>key\<close>
  that \<open>l2filter\<close> computes.
\<close>

definition bucket_of_conditions :: "bool \<Rightarrow> bool \<Rightarrow> bool \<Rightarrow> nat" where
  "bucket_of_conditions over_cut external retriggered =
     (if over_cut then 1 else 0) + (if external then 2 else 0) + (if retriggered then 4 else 0)"



section \<open>Concrete inputs\<close>

text \<open>
  An instance of the external declarations for the evaluations below: the bank tag
  "ZDAB", the flag bit 23 and the 23-bit length of a sub-record header, a header whose
  eleven words are flipped word by word, \<open>NPmtHit\<close> in the low half of word 3,
  \<open>CalPckType\<close> at word 4 and \<open>TriggerCardData\<close> in words 5 to 10.
\<close>

definition cfg0 :: configuration where
  "cfg0 = \<lparr>nhithi = 30, nhitlo = 20, lothresh = 100, lowindow = 1000, retrigcut = 10,
            retrigwindow = 23, bitmask = 0x400, nhitbcut = 40, burstwindow = 50000000,
            burstsize = 100, endrate = 10\<rparr>"

definition ext0 :: externals where
  "ext0 = \<lparr>ZDAB_RECORD = 0x5A444142, SUB_NOT_LAST = 0x00800000, SUB_LENGTH_MASK = 0x007FFFFF,
            SWAP_PMT_RECORD = map swap_bytes,
            NPmtHit = (\<lambda>h. ucast (h ! 3)),
            RunNumber = (\<lambda>h. h ! 1),
            BcGT = (\<lambda>h. h ! 8 AND 0xFFFFFF),
            Bc50_1 = (\<lambda>h. drop_bit 21 (h ! 6)),
            Bc50_2 = (\<lambda>h. h ! 7),
            Bc10_1 = (\<lambda>h. h ! 5),
            Bc10_2 = (\<lambda>h. h ! 6 AND 0x1FFFFF),
            CalPckType = 4, TriggerCardData = 5,
            SetConfig = (\<lambda>rt. cfg0), yesredis = False\<rparr>"

definition at0 :: alltimes where
  "at0 = \<lparr>time50 = 0, time10 = 0, longtime = 0, epoch = 0, walltime = 0, oldwalltime_at = 0,
           exptime = 0\<rparr>"

definition hit0 :: hitinfo where
  "hit0 = \<lparr>time50_hit = 0, time10_hit = 0, nhit = 0, triggertype = 0, reclen = 0, gtid = 0,
            run = 0\<rparr>"

text \<open>The state before the first record of a run whose configuration is known.\<close>

definition state0 :: state where
  "state0 = \<lparr>config = cfg0, NHITCUT = 30, standard = at0, problem = False,
              eventn = 0, recordn = 0, passretrig = False, retrig = False, orphan = 0,
              l1 = 0, l2 = 0, burstbool = False, stats = [0, 0, 0, 0, 0, 0, 0, 0],
              alltime = at0, hits = hit0, configknown = True, log = []\<rparr>"

text \<open>A last good time 100 ticks before the 50 MHz clock rolls over at \<open>2^43\<close>, and a hit
  150 ticks (30 ticks of the 10 MHz clock) later, 50 ticks past the rollover.\<close>

definition at_near :: alltimes where
  "at_near = \<lparr>time50 = 8796093022108, time10 = 1000, longtime = 8796093022108, epoch = 0,
               walltime = 0, oldwalltime_at = 0, exptime = 0\<rparr>"

definition hit_after :: hitinfo where
  "hit_after = \<lparr>time50_hit = 50, time10_hit = 1030, nhit = 25, triggertype = 0, reclen = 23,
                 gtid = 7, run = 1\<rparr>"

definition state_near :: state where
  "state_near = state0\<lparr>eventn := 3, standard := at_near, alltime := at_near\<rparr>"

text \<open>A reading that runs backward far from the rollover, and a hit with a zero 50 MHz
  time.\<close>

definition at_mid :: alltimes where
  "at_mid = \<lparr>time50 = 5000, time10 = 1000, longtime = 5000, epoch = 0, walltime = 0,
              oldwalltime_at = 0, exptime = 7000\<rparr>"



definition hit_orphan :: hitinfo where
  "hit_orphan = \<lparr>time50_hit = 0, time10_hit = 1030, nhit = 25, triggertype = 0, reclen = 23,
                  gtid = 10, run = 1\<rparr>"

definition state_mid :: state where
  "state_mid = state0\<lparr>eventn := 3, standard := at_mid, alltime := at_mid\<rparr>"

text \<open>
  Hit records in wire order (each word is the flip of its host value). The header of
  each: run 1, event 7, \<open>Bc10_1 = 100\<close>, \<open>Bc50_2 = 1\<close>, \<open>BcGT = 5\<close>.
  \<open>rec_one_hit\<close>: one hit, no sub-record, hit data \<open>1, 2, 3\<close>.
  \<open>rec_escape\<close>: 50 hits, \<open>CalPckType = 0x00A00000\<close>, that is the flag and a jump of
  \<open>0x200000\<close> words.
  \<open>rec_too_many\<close>: \<open>NPmtHit = 10241\<close>.
\<close>

definition rec_one_hit :: nZDAB where
  "rec_one_hit = \<lparr>bank_name = 0x5A444142,
     pmt = [0, 0x01000000, 0x07000000, 0x01000000, 0, 0x64000000, 0, 0x01000000, 0x05000000, 0, 0,
            1, 2, 3]\<rparr>"

definition rec_escape :: nZDAB where
  "rec_escape = \<lparr>bank_name = 0x5A444142,
     pmt = [0, 0x01000000, 0x07000000, 0x32000000, 0x0000A000, 0x64000000, 0, 0x01000000, 0x05000000,
            0, 0, 1, 2, 3]\<rparr>"


text \<open>A run-header record: another bank, for which \<open>FillHeaderBuffer\<close> returns a run
  type.\<close>

definition rec_rhdr :: nZDAB where
  "rec_rhdr = \<lparr>bank_name = 0x52484452, pmt = [0, 0, 0]\<rparr>"

section \<open>The clocks: rollover, rejection and reset, orphans\<close>


text \<open>
  Whenever the new 50 MHz time is below the last good one and the last good one is a
  43-bit value, the unsigned difference \<open>newat.time50 - standard.time50\<close> wraps to more
  than \<open>maxjump\<close>, so \<open>IsConsistent\<close> returns false: also in the rollover branch, which
  falls through to the second test.
\<close>

lemma backward_time_fails_jump_check:
  assumes "time50 newat < time50 std" and "unat (time50 std) < 2 ^ 43"
  shows "fst (IsConsistent newat std dd) = False"
proof -
  have "unat (time50 newat - time50 std) = 2 ^ 64 + unat (time50 newat) - unat (time50 std)"
    using assms(1) by (simp add: unat_sub_if' word_less_nat_alt)
  then have "unat (time50 newat - time50 std) > unat maxjump"
    using assms by (simp add: maxjump_def word_less_nat_alt)
  then have "time50 newat - time50 std > maxjump"
    by (simp add: word_less_nat_alt)
  then show ?thesis
    using assms(1) by (simp add: IsConsistent_def jump_check_def)
qed

text \<open>
  C1, at the input \<open>hit_after\<close>, \<open>at_near\<close>, \<open>state_near\<close>: the last good time is within
  \<open>maxjump\<close> of \<open>2^43\<close>, the new time is smaller, their sum is below \<open>2^43 + maxjump\<close> and
  the drift is 0, so the claim's conditions hold. \<open>IsConsistent\<close> takes the rollover
  branch (the "new epoch" alarm is raised) and then returns false from the large-gap test;
  \<open>compute_times\<close> returns the old \<open>standard\<close> with \<open>epoch\<close> and \<open>longtime\<close> unchanged and
  sets the fault flag.
\<close>

theorem rollover_rejected_at_boundary:
  "time50 (new_reading hit_after at_near) < time50 at_near
   \<and> maxtime - maxjump < time50 at_near
   \<and> time50 at_near + time50 (new_reading hit_after at_near) < maxtime + maxjump
   \<and> sint (drift at_near (new_reading hit_after at_near)) < 5000
   \<and> IsConsistent (new_reading hit_after at_near) at_near
        (drift at_near (new_reading hit_after at_near))
      = (False, (new_reading hit_after at_near)\<lparr>epoch := 1\<rparr>,
         [Stderr ''New Epoch'', Alarm 20 ''Stonehenge: new epoch.'' 0,
          Alarm 30 ''Stonehenge: Large time gap between events!'' 0,
          Stderr ''Stonehenge: Large time gap between events!''])
   \<and> fst (compute_times hit_after at_near state_near) = at_near
   \<and> epoch (fst (compute_times hit_after at_near state_near)) = epoch at_near
   \<and> longtime (fst (compute_times hit_after at_near state_near)) = longtime at_near
   \<and> problem (snd (compute_times hit_after at_near state_near))"
  by (simp add: compute_times_def IsConsistent_def jump_check_def drift_def new_reading_def
        at_near_def hit_after_def state_near_def state0_def cfg0_def Let_def
        maxtime_def maxjump_def maxdrift_def)




text \<open>
  C9 as stated fails: for a record after the first with \<open>time50 = 0\<close> the returned state
  carries the record's \<open>time10\<close>, not the previous one.
\<close>

theorem orphan_time10_counterexample:
  "eventn state_mid \<noteq> 1 \<and> time50_hit hit_orphan = 0
   \<and> time10 (fst (compute_times hit_orphan at_mid state_mid)) = 1030
   \<and> time10 at_mid = 1000"
  by (simp add: compute_times_def Let_def hit_orphan_def at_mid_def state_mid_def state0_def)

text \<open>
  C9, amended. For every record after the first whose decoded \<open>time50\<close> is 0,
  \<open>compute_times\<close> increments the orphan counter and returns the previous time state with
  \<open>time50\<close>, \<open>longtime\<close>, \<open>epoch\<close>, \<open>exptime\<close> and the wall-clock fields unchanged and
  \<open>time10\<close> set to the record's \<open>time10\<close>; \<open>standard\<close> and the fault flag are untouched.
\<close>

theorem orphan_keeps_time_state:
  assumes "eventn st \<noteq> 1" and "time50_hit hit = 0"
  shows "fst (compute_times hit oldat st) = oldat\<lparr>time10 := time10_hit hit\<rparr>
       \<and> time50 (fst (compute_times hit oldat st)) = time50 oldat
       \<and> longtime (fst (compute_times hit oldat st)) = longtime oldat
       \<and> epoch (fst (compute_times hit oldat st)) = epoch oldat
       \<and> exptime (fst (compute_times hit oldat st)) = exptime oldat
       \<and> orphan (snd (compute_times hit oldat st)) = orphan st + 1
       \<and> standard (snd (compute_times hit oldat st)) = standard st
       \<and> problem (snd (compute_times hit oldat st)) = problem st"
  using assms by (simp add: compute_times_def Let_def)

theorem orphan_keeps_time_state_witness:
  "eventn state_mid \<noteq> 1 \<and> time50_hit hit_orphan = 0
   \<and> fst (compute_times hit_orphan at_mid state_mid) = at_mid\<lparr>time10 := 1030\<rparr>
   \<and> orphan (snd (compute_times hit_orphan at_mid state_mid)) = 1"
proof -
  have e: "eventn state_mid \<noteq> 1" by (simp add: state_mid_def state0_def)
  have z: "time50_hit hit_orphan = 0" by (simp add: hit_orphan_def)
  show ?thesis
    using e z orphan_keeps_time_state [OF e z, of at_mid]
    by (simp add: hit_orphan_def state_mid_def state0_def)
qed

section \<open>The L2 cut\<close>

lemma fold_select:
  "fold (\<lambda>i s. if k = i then f i s else s) [a ..< b] x = (if a \<le> k \<and> k < b then f k x else x)"
  by (induction b) auto

lemma bucket_of_conditions_less: "bucket_of_conditions a b c < 8"
  by (simp add: bucket_of_conditions_def)

lemma l2filter_eq:
  "l2filter g n word p r stats0 =
     (uint n > sint (NHITCUT g) \<or> word AND bitmask (config g) \<noteq> 0
        \<or> (p \<and> r \<and> uint n > sint (retrigcut (config g))),
      stats0[bucket_of_conditions (uint n > sint (NHITCUT g)) (word AND bitmask (config g) \<noteq> 0)
               (p \<and> r \<and> uint n > sint (retrigcut (config g)))
             := stats0 ! bucket_of_conditions (uint n > sint (NHITCUT g))
                            (word AND bitmask (config g) \<noteq> 0)
                            (p \<and> r \<and> uint n > sint (retrigcut (config g))) + 1])"
  by (cases "uint n > sint (NHITCUT g)"; cases "word AND bitmask (config g) \<noteq> 0";
      cases "p \<and> r \<and> uint n > sint (retrigcut (config g))")
     (auto simp: l2filter_def bucket_of_conditions_def fold_select)

text \<open>
  C6. For every input and every filter state with its eight buckets, \<open>l2filter\<close> accepts
  exactly when nhit exceeds the active cut, or the trigger word intersects the bit mask,
  or the latch and the retrigger flag are set and nhit exceeds the retrigger cut; the
  bucket indexed by the 3-bit combination of the three conditions is incremented, and
  every other bucket is left as it was.
\<close>

theorem l2filter_accept_and_bucket:
  assumes "length stats0 = 8"
    and "over_cut = (uint n > sint (NHITCUT g))"
    and "external = (word AND bitmask (config g) \<noteq> 0)"
    and "retriggered = (p \<and> r \<and> uint n > sint (retrigcut (config g)))"
    and "k = bucket_of_conditions over_cut external retriggered"
  shows "fst (l2filter g n word p r stats0) = (over_cut \<or> external \<or> retriggered)
       \<and> k < 8
       \<and> length (snd (l2filter g n word p r stats0)) = 8
       \<and> snd (l2filter g n word p r stats0) ! k = stats0 ! k + 1
       \<and> (\<forall>i. i \<noteq> k \<longrightarrow> snd (l2filter g n word p r stats0) ! i = stats0 ! i)"
  using assms bucket_of_conditions_less [of over_cut external retriggered]
  by (simp add: l2filter_eq)

theorem l2filter_accept_and_bucket_witness:
  "length (stats state0) = 8
   \<and> (uint (25 :: u16) > sint (NHITCUT state0)) = False
   \<and> ((0x401 :: u32) AND bitmask (config state0) \<noteq> 0) = True
   \<and> (True \<and> True \<and> uint (25 :: u16) > sint (retrigcut (config state0))) = True
   \<and> bucket_of_conditions False True True = 6
   \<and> fst (l2filter state0 25 0x401 True True (stats state0)) = True
   \<and> snd (l2filter state0 25 0x401 True True (stats state0)) ! 6 = 1
   \<and> snd (l2filter state0 25 0x401 True True (stats state0)) ! 2 = stats state0 ! 2
   \<and> length (snd (l2filter state0 25 0x401 True True (stats state0))) = 8"
proof -
  have a: "length (stats state0) = 8" by (simp add: state0_def)
  have b: "False = (uint (25 :: u16) > sint (NHITCUT state0))" by (simp add: state0_def)
  have c: "True = ((0x401 :: u32) AND bitmask (config state0) \<noteq> 0)"
    by (simp add: state0_def cfg0_def)
  have d: "True = (True \<and> True \<and> uint (25 :: u16) > sint (retrigcut (config state0)))"
    by (simp add: state0_def cfg0_def)
  have e: "6 = bucket_of_conditions False True True" by (simp add: bucket_of_conditions_def)
  have f: "stats state0 ! 6 = 0" by (simp add: state0_def)
  show ?thesis
    using a b c d e f l2filter_accept_and_bucket [OF a b c d e] by simp
qed

section \<open>The threshold controller\<close>











section \<open>The alarm limiter\<close>










section \<open>The record loop: run headers and faulty hit records\<close>

text \<open>
  C10. Whenever \<open>FillHeaderBuffer\<close> returns a run type, the head of the loop body raises
  the "RHDR Record in the middle of a run" warning, whether or not the configuration was
  known before: for the first such record it loads the configuration, sets the flag and
  then raises the alarm in the same iteration. For a record of another bank than the hit
  bank the iteration completes and these are its effects, followed by the pass-through.
\<close>

theorem rhdr_alarm_every_time:
  assumes "runtype inp \<noteq> 0"
  shows "new_effects st (header_phase ext (runtype inp) st) =
           (if configknown st then [] else [SetConfig_call (runtype inp), WriteConfig_call])
           @ [Alarm 30 ''Stonehenge: RHDR Record in the middle of a run!'' 0]
       \<and> configknown (header_phase ext (runtype inp) st)
       \<and> (bank_name (zrec inp) \<noteq> ZDAB_RECORD ext \<longrightarrow>
            (\<exists>st'. main_step ext inp st = Some (Inr st')
               \<and> new_effects st st' =
                   (if configknown st then [] else [SetConfig_call (runtype inp), WriteConfig_call])
                   @ [Alarm 30 ''Stonehenge: RHDR Record in the middle of a run!'' 0,
                      OutZdab (bank_name (zrec inp)) (pmt (zrec inp))]))"
  using assms
  by (simp add: header_phase_def main_step_def ReadHits_def new_effects_def Let_def)

theorem rhdr_alarm_every_time_witness:
  "runtype \<lparr>zrec = rec_rhdr, runtype = 3, now = 100, burst = False\<rparr> \<noteq> 0
   \<and> \<not> configknown (state0\<lparr>configknown := False\<rparr>)
   \<and> bank_name rec_rhdr \<noteq> ZDAB_RECORD ext0
   \<and> new_effects (state0\<lparr>configknown := False\<rparr>)
        (header_phase ext0 3 (state0\<lparr>configknown := False\<rparr>))
      = [SetConfig_call 3, WriteConfig_call,
         Alarm 30 ''Stonehenge: RHDR Record in the middle of a run!'' 0]
   \<and> configknown (header_phase ext0 3 (state0\<lparr>configknown := False\<rparr>))
   \<and> main_step ext0 \<lparr>zrec = rec_rhdr, runtype = 3, now = 100, burst = False\<rparr>
        (state0\<lparr>configknown := False\<rparr>)
      = Some (Inr (state0\<lparr>recordn := 1, l1 := 1, l2 := 1,
                     log := [SetConfig_call 3, WriteConfig_call,
                             Alarm 30 ''Stonehenge: RHDR Record in the middle of a run!'' 0,
                             OutZdab 0x52484452 [0, 0, 0]]\<rparr>))"
proof -
  let ?inp = "\<lparr>zrec = rec_rhdr, runtype = 3, now = 100, burst = False\<rparr>"
  have a: "runtype ?inp \<noteq> 0" by simp
  have b: "bank_name (zrec ?inp) \<noteq> ZDAB_RECORD ext0" by (simp add: rec_rhdr_def ext0_def)
  have c: "\<not> configknown (state0\<lparr>configknown := False\<rparr>)" by simp
  show ?thesis
    using a b c rhdr_alarm_every_time [OF a, of "state0\<lparr>configknown := False\<rparr>" ext0]
    by (simp add: main_step_def header_phase_def ReadHits_def ext0_def rec_rhdr_def state0_def
          Let_def)
qed




text \<open>
  Whatever the layout and the masks are: a hit record whose first sub-record header has
  the flag set and a length above \<open>MAX_BUFFSIZE/4\<close> makes \<open>ReadHits\<close> return 0 with the
  header left in host order and nothing but the line on \<open>stderr\<close>; and a hit record
  without sub-records comes back with the header flipped twice and the \<open>3*nhit\<close> words of
  hit data flipped once.
\<close>

lemma ReadHits_jump_too_far:
  assumes "bank_name zr = ZDAB_RECORD ext" and "11 \<le> length (pmt zr)"
    and "\<not> uint (NPmtHit ext (take 11 (swap_header ext (pmt zr)))) > MAX_NHIT"
    and "CalPckType ext < length (swap_header ext (pmt zr))"
    and "swap_header ext (pmt zr) ! CalPckType ext AND SUB_NOT_LAST ext \<noteq> 0"
    and "unat (swap_header ext (pmt zr) ! CalPckType ext AND SUB_LENGTH_MASK ext)
           > MAX_BUFFSIZE div 4"
  shows "\<exists>hit'. ReadHits ext zr hit =
           Some (Inr (0, zr\<lparr>pmt := swap_header ext (pmt zr)\<rparr>, hit',
                      [Stderr ''Error: wanted to jump past the end of the buffer'']))"
  using assms by (simp add: ReadHits_def walk.simps Let_def)

lemma ReadHits_no_subrecord:
  assumes "bank_name zr = ZDAB_RECORD ext" and "11 \<le> length (pmt zr)"
    and "n = NPmtHit ext (take 11 (swap_header ext (pmt zr)))"
    and "\<not> uint n > MAX_NHIT"
    and "CalPckType ext < length (swap_header ext (pmt zr))"
    and "swap_header ext (pmt zr) ! CalPckType ext AND SUB_NOT_LAST ext = 0"
    and "11 + 3 * unat n \<le> length (swap_header ext (swap_header ext (pmt zr)))"
  shows "\<exists>hit'. ReadHits ext zr hit =
           Some (Inr (0, zr\<lparr>pmt := SWAP_INT32 (swap_header ext (swap_header ext (pmt zr))) 11
                                      (3 * unat n)\<rparr>, hit', []))"
  using assms by (simp add: ReadHits_def read_fields_def walk.simps Let_def)

lemma ReadHits_rec_escape:
  "ReadHits ext0 rec_escape hit0
     = Some (Inr (0, rec_escape\<lparr>pmt := [0, 1, 7, 50, 0x00A00000, 100, 0, 1, 5, 0, 0, 1, 2, 3]\<rparr>,
                  hit0\<lparr>nhit := 50, gtid := 5, run := 1, time50_hit := 2048, time10_hit := 100\<rparr>,
                  [Stderr ''Error: wanted to jump past the end of the buffer'']))"
  by (simp add: ReadHits_def read_fields_def walk.simps swap_header_def ext0_def rec_escape_def
        hit0_def swap_bytes_def MAX_NHIT_def MAX_BUFFSIZE_def Let_def)

lemma compute_times_rec_escape:
  "compute_times (hit0\<lparr>nhit := 50, gtid := 5, run := 1, time50_hit := 2048, time10_hit := 100\<rparr>) at0
     (state0\<lparr>eventn := 1,
             hits := hit0\<lparr>nhit := 50, gtid := 5, run := 1, time50_hit := 2048, time10_hit := 100\<rparr>,
             log := [Stderr ''Error: wanted to jump past the end of the buffer'']\<rparr>)
   = (at0\<lparr>time50 := 2048, time10 := 100, longtime := 2048\<rparr>,
      state0\<lparr>eventn := 1,
             hits := hit0\<lparr>nhit := 50, gtid := 5, run := 1, time50_hit := 2048, time10_hit := 100\<rparr>,
             standard := at0\<lparr>time50 := 2048, time10 := 100, longtime := 2048\<rparr>,
             log := [Stderr ''Error: wanted to jump past the end of the buffer'',
                     Checkbuffer 2048]\<rparr>)"
  by (simp add: compute_times_def state0_def hit0_def at0_def Let_def)

text \<open>
  C3, at the input \<open>rec_escape\<close>: the first sub-record header has the flag set and a jump
  of \<open>0x200000\<close> words, more than \<open>MAX_BUFFSIZE/4\<close>. \<open>ReadHits\<close> prints the error and
  returns 0, the value for a decoded hit, with no alarm; \<open>main\<close> then counts the record
  as an event, runs the filter on it (bucket 1 is incremented) and writes it to the
  output.
\<close>

theorem escaping_jump_processed_as_hit:
  "unat ((0x00A00000 :: u32) AND SUB_LENGTH_MASK ext0) > MAX_BUFFSIZE div 4
   \<and> ReadHits ext0 rec_escape hit0
     = Some (Inr (0, rec_escape\<lparr>pmt := [0, 1, 7, 50, 0x00A00000, 100, 0, 1, 5, 0, 0, 1, 2, 3]\<rparr>,
                  hit0\<lparr>nhit := 50, gtid := 5, run := 1, time50_hit := 2048, time10_hit := 100\<rparr>,
                  [Stderr ''Error: wanted to jump past the end of the buffer'']))
   \<and> main_step ext0 \<lparr>zrec = rec_escape, runtype = 0, now = 100, burst = False\<rparr> state0
     = Some (Inr (state0\<lparr>
          standard := at0\<lparr>time50 := 2048, time10 := 100, longtime := 2048\<rparr>,
          eventn := 1, recordn := 1, passretrig := True, l1 := 1, l2 := 1,
          stats := [0, 1, 0, 0, 0, 0, 0, 0],
          alltime := at0\<lparr>time50 := 2048, time10 := 100, longtime := 2048, walltime := 100\<rparr>,
          hits := hit0\<lparr>nhit := 50, gtid := 5, run := 1, time50_hit := 2048, time10_hit := 100\<rparr>,
          log := [Stderr ''Error: wanted to jump past the end of the buffer'',
                  Checkbuffer 2048, Flusherrors, UpdateBuf 2048 50000000,
                  AddEvBuf [0, 1, 7, 50, 0x00A00000, 100, 0, 1, 5, 0, 0, 1, 2, 3] 2048 0,
                  Burstfile_call,
                  OutZdab 0x5A444142 [0, 1, 7, 50, 0x00A00000, 100, 0, 1, 5, 0, 0, 1, 2, 3]]\<rparr>))"
proof -
  note rh = ReadHits_rec_escape [unfolded hit0_def rec_escape_def ext0_def cfg0_def, simplified]
  note ct = compute_times_rec_escape [unfolded state0_def hit0_def at0_def cfg0_def, simplified]
  have j: "unat ((0x00A00000 :: u32) AND SUB_LENGTH_MASK ext0) > MAX_BUFFSIZE div 4"
    by (simp add: ext0_def MAX_BUFFSIZE_def)
  have m: "main_step ext0 \<lparr>zrec = rec_escape, runtype = 0, now = 100, burst = False\<rparr> state0
     = Some (Inr (state0\<lparr>
          standard := at0\<lparr>time50 := 2048, time10 := 100, longtime := 2048\<rparr>,
          eventn := 1, recordn := 1, passretrig := True, l1 := 1, l2 := 1,
          stats := [0, 1, 0, 0, 0, 0, 0, 0],
          alltime := at0\<lparr>time50 := 2048, time10 := 100, longtime := 2048, walltime := 100\<rparr>,
          hits := hit0\<lparr>nhit := 50, gtid := 5, run := 1, time50_hit := 2048, time10_hit := 100\<rparr>,
          log := [Stderr ''Error: wanted to jump past the end of the buffer'',
                  Checkbuffer 2048, Flusherrors, UpdateBuf 2048 50000000,
                  AddEvBuf [0, 1, 7, 50, 0x00A00000, 100, 0, 1, 5, 0, 0, 1, 2, 3] 2048 0,
                  Burstfile_call,
                  OutZdab 0x5A444142 [0, 1, 7, 50, 0x00A00000, 100, 0, 1, 5, 0, 0, 1, 2, 3]]\<rparr>))"
    by (simp add: main_step_def header_phase_def event_phase_def rh ct l2filter_eq
          bucket_of_conditions_def setthreshold_def updatetime_def
          rec_escape_def state0_def hit0_def at0_def cfg0_def ext0_def Let_def)
  show ?thesis
    using j m ReadHits_rec_escape by simp
qed

text \<open>
  C4, at the input \<open>rec_one_hit\<close>: a record with one hit and no sub-record. \<open>ReadHits\<close>
  returns 0 and the header is as it was given, but the three words of hit data come back
  flipped: they are flipped once at the end and never before.
\<close>

theorem hit_data_flipped_on_return:
  "pmt rec_one_hit = [0, 0x01000000, 0x07000000, 0x01000000, 0, 0x64000000, 0, 0x01000000,
                      0x05000000, 0, 0, 1, 2, 3]
   \<and> ReadHits ext0 rec_one_hit hit0
     = Some (Inr (0, rec_one_hit\<lparr>pmt := [0, 0x01000000, 0x07000000, 0x01000000, 0, 0x64000000, 0,
                                           0x01000000, 0x05000000, 0, 0,
                                           0x01000000, 0x02000000, 0x03000000]\<rparr>,
                  hit0\<lparr>nhit := 1, gtid := 5, run := 1, time50_hit := 2048, time10_hit := 100,
                       reclen := 23\<rparr>,
                  []))"
  by (simp add: ReadHits_def read_fields_def walk.simps swap_header_def SWAP_INT32_def ext0_def
        rec_one_hit_def hit0_def swap_bytes_def MAX_NHIT_def MAX_BUFFSIZE_def Let_def)

end
